theory Spec2Isabelle
  imports Complex_Main
begin

section \<open>JavaScript values\<close>

text \<open>
  The Box module computes with JavaScript primitives and reads what a plain object
  inherits: \<open>JFunction n\<close> is the built-in function named \<open>n\<close> and \<open>JObject\<close> is the
  object \<open>Object.prototype\<close>. Numbers are modelled as rationals extended with \<open>NaN\<close> (which
  \<open>undefined - 1\<close> produces) and arithmetic on them is exact. The code computes with IEEE
  doubles, whose product and difference are these exact values whenever the operands and
  the result are integers of magnitude at most \<open>2^53\<close>; elsewhere the code may round or
  overflow, which is outside the model, as are infinities and negative zero. Strings are
  ASCII.
\<close>

datatype jnum = Num rat | NaN

datatype jsval = JUndef | JNull | JBool bool | JNum jnum | JStr string
  | JFunction string | JObject

datatype error = TypeError

text \<open>
  Two conversions of the language depend on the floating-point representation and on a
  parser for numeric literals. They are parameters of the model: \<open>stringToNumber\<close> is
  ToNumber on strings, \<open>fmtNumber\<close> is Number-to-String on the numbers that are not
  integers of magnitude at most \<open>2^53\<close>.
\<close>

record js_engine =
  stringToNumber :: "string \<Rightarrow> jnum"
  fmtNumber :: "rat \<Rightarrow> string"

fun jmul :: "jnum \<Rightarrow> jnum \<Rightarrow> jnum" where
  "jmul (Num a) (Num b) = Num (a * b)"
| "jmul _ _ = NaN"

fun jsub :: "jnum \<Rightarrow> jnum \<Rightarrow> jnum" where
  "jsub (Num a) (Num b) = Num (a - b)"
| "jsub _ _ = NaN"

text \<open>The comparison \<open>x >= 0\<close>; it is false on \<open>NaN\<close>.\<close>

fun jge0 :: "jnum \<Rightarrow> bool" where
  "jge0 (Num a) = (0 \<le> a)"
| "jge0 NaN = False"

text \<open>ToBoolean.\<close>

fun truthy :: "jsval \<Rightarrow> bool" where
  "truthy JUndef = False"
| "truthy JNull = False"
| "truthy (JBool b) = b"
| "truthy (JNum (Num q)) = (q \<noteq> 0)"
| "truthy (JNum NaN) = False"
| "truthy (JStr s) = (s \<noteq> [])"
| "truthy (JFunction n) = True"
| "truthy JObject = True"

text \<open>The operator \<open>a || b\<close>.\<close>

definition jor :: "jsval \<Rightarrow> jsval \<Rightarrow> jsval" where
  "jor a b = (if truthy a then a else b)"

text \<open>What ToString gives for a built-in function.\<close>

definition functionSource :: "string \<Rightarrow> string" where
  "functionSource n = ''function '' @ n @ ''() { [native code] }''"

text \<open>ToNumber; a function or an object is first converted to its string.\<close>

fun toNumber :: "js_engine \<Rightarrow> jsval \<Rightarrow> jnum" where
  "toNumber eng JUndef = NaN"
| "toNumber eng JNull = Num 0"
| "toNumber eng (JBool b) = Num (if b then 1 else 0)"
| "toNumber eng (JNum n) = n"
| "toNumber eng (JStr s) = stringToNumber eng s"
| "toNumber eng (JFunction n) = stringToNumber eng (functionSource n)"
| "toNumber eng JObject = stringToNumber eng ''[object Object]''"

definition digit :: "nat \<Rightarrow> char" where
  "digit d = ''0123456789'' ! d"

fun digits :: "nat \<Rightarrow> string" where
  "digits n = (if n < 10 then [digit n] else digits (n div 10) @ [digit (n mod 10)])"

declare digits.simps [simp del]

definition isInt :: "rat \<Rightarrow> bool" where
  "isInt q = (of_int \<lfloor>q\<rfloor> = q)"

definition numToString :: "js_engine \<Rightarrow> jnum \<Rightarrow> string" where
  "numToString eng n =
     (case n of
        NaN \<Rightarrow> ''NaN''
      | Num q \<Rightarrow>
          (if isInt q \<and> \<bar>q\<bar> \<le> 9007199254740992
           then (if q < 0 then ''-'' else []) @ digits (nat \<lfloor>\<bar>q\<bar>\<rfloor>)
           else fmtNumber eng q))"

text \<open>ToString, as used by template literals and by computed property keys.\<close>

fun toStringJS :: "js_engine \<Rightarrow> jsval \<Rightarrow> string" where
  "toStringJS eng JUndef = ''undefined''"
| "toStringJS eng JNull = ''null''"
| "toStringJS eng (JBool b) = (if b then ''true'' else ''false'')"
| "toStringJS eng (JNum n) = numToString eng n"
| "toStringJS eng (JStr s) = s"
| "toStringJS eng (JFunction n) = functionSource n"
| "toStringJS eng JObject = ''[object Object]''"

definition upperChar :: "char \<Rightarrow> char" where
  "upperChar c =
     (if 97 \<le> (of_char c :: nat) \<and> (of_char c :: nat) \<le> 122
      then char_of ((of_char c :: nat) - 32) else c)"

definition lowerChar :: "char \<Rightarrow> char" where
  "lowerChar c =
     (if 65 \<le> (of_char c :: nat) \<and> (of_char c :: nat) \<le> 90
      then char_of ((of_char c :: nat) + 32) else c)"

definition toUpperCase :: "string \<Rightarrow> string" where
  "toUpperCase s = map upperChar s"

definition toLowerCase :: "string \<Rightarrow> string" where
  "toLowerCase s = map lowerChar s"

section \<open>Objects\<close>

text \<open>
  An object that is only read by key or spread into another one is a map from its own
  property names to values. The props bag is enumerated by \<open>Object.keys\<close>, so it is an
  association list in enumeration order (its keys are distinct in a well-formed bag).

  Reading a name the object does not own continues in \<open>Object.prototype\<close>
  (\<open>getProperty\<close>), and gives \<open>undefined\<close> when the name is not there either. The module
  reads the props, the mapped style and \<open>theme.colors.gray\<close> by names that are not in
  \<open>Object.prototype\<close>, or by names taken from \<open>Object.keys\<close>; for those the read is
  \<open>getm\<close>, of the own properties. \<open>theme.colors[value]\<close> is read by a name the request
  chooses, and is \<open>getProperty\<close>.
\<close>

type_synonym obj = "string \<rightharpoonup> jsval"

type_synonym props = "(string \<times> jsval) list"

definition getm :: "obj \<Rightarrow> string \<Rightarrow> jsval" where
  "getm m k = (case m k of None \<Rightarrow> JUndef | Some v \<Rightarrow> v)"

text \<open>The properties of \<open>Object.prototype\<close>, those of Annex B included.\<close>

definition objectPrototype :: obj where
  "objectPrototype = map_of
     [(''constructor'', JFunction ''Object''),
      (''__defineGetter__'', JFunction ''__defineGetter__''),
      (''__defineSetter__'', JFunction ''__defineSetter__''),
      (''hasOwnProperty'', JFunction ''hasOwnProperty''),
      (''__lookupGetter__'', JFunction ''__lookupGetter__''),
      (''__lookupSetter__'', JFunction ''__lookupSetter__''),
      (''isPrototypeOf'', JFunction ''isPrototypeOf''),
      (''propertyIsEnumerable'', JFunction ''propertyIsEnumerable''),
      (''toString'', JFunction ''toString''),
      (''valueOf'', JFunction ''valueOf''),
      (''__proto__'', JObject),
      (''toLocaleString'', JFunction ''toLocaleString'')]"

definition getProperty :: "obj \<Rightarrow> string \<Rightarrow> jsval" where
  "getProperty m k = (case m k of None \<Rightarrow> getm objectPrototype k | Some v \<Rightarrow> v)"

definition getp :: "props \<Rightarrow> string \<Rightarrow> jsval" where
  "getp ps k = getm (map_of ps) k"

definition keys :: "props \<Rightarrow> string list" where
  "keys ps = map fst ps"

text \<open>
  Modelled from the spec: the theme's type (\<open>../themes/types\<close> is not among the sources).
  \<open>typography.lineHeight\<close>, \<open>border.width\<close> and \<open>border.radius\<close> are numbers and
  \<open>colors\<close> is a plain object that maps colour names to values.
\<close>

record theme =
  lineHeight :: jnum
  colors :: obj
  border_width :: jnum
  border_radius :: jnum

section \<open>The Box style function\<close>

definition rhythmOrString :: "theme \<Rightarrow> jsval \<Rightarrow> jsval" where
  "rhythmOrString th v =
     (case v of
        JNum n \<Rightarrow> JNum (jmul (lineHeight th) n)
      | _ \<Rightarrow> jor v (JNum (Num 0)))"

definition plainProps :: "string list" where
  "plainProps = [''display'', ''flex'', ''flexDirection'', ''flexFlow'', ''flexGrow'',
     ''flexWrap'', ''alignItems'', ''alignContent'', ''justifyContent'', ''order'',
     ''flexShrink'', ''flexBasis'', ''alignSelf'']"

definition simpleProps :: "string list" where
  "simpleProps = [''marginBottom'', ''marginLeft'', ''marginRight'', ''marginTop'',
     ''paddingBottom'', ''paddingLeft'', ''paddingRight'', ''paddingTop'',
     ''width'', ''height'', ''maxWidth'', ''maxHeight'', ''minWidth'', ''minHeight'']"

definition directionMapping :: "string \<rightharpoonup> string \<times> string" where
  "directionMapping = map_of
     [(''marginHorizontal'', (''marginLeft'', ''marginRight'')),
      (''marginVertical'', (''marginTop'', ''marginBottom'')),
      (''paddingHorizontal'', (''paddingLeft'', ''paddingRight'')),
      (''paddingVertical'', (''paddingTop'', ''paddingBottom''))]"

text \<open>\<open>None\<close> is the \<open>null\<close> of the default branch.\<close>

definition propToStyle :: "js_engine \<Rightarrow> string \<Rightarrow> jsval \<Rightarrow> theme \<Rightarrow> obj option" where
  "propToStyle eng prop v th =
     (if prop \<in> set plainProps then Some [prop \<mapsto> v]
      else if prop \<in> set simpleProps then Some [prop \<mapsto> rhythmOrString th v]
      else case directionMapping prop of
        Some (d1, d2) \<Rightarrow>
          Some [d1 \<mapsto> rhythmOrString th v, d2 \<mapsto> rhythmOrString th v]
      | None \<Rightarrow>
         (if prop = ''margin'' then
            Some [''marginBottom'' \<mapsto> rhythmOrString th v,
                  ''marginLeft'' \<mapsto> rhythmOrString th v,
                  ''marginRight'' \<mapsto> rhythmOrString th v,
                  ''marginTop'' \<mapsto> rhythmOrString th v]
          else if prop = ''padding'' then
            Some [''paddingBottom'' \<mapsto> rhythmOrString th v,
                  ''paddingLeft'' \<mapsto> rhythmOrString th v,
                  ''paddingRight'' \<mapsto> rhythmOrString th v,
                  ''paddingTop'' \<mapsto> rhythmOrString th v]
          else if prop = ''backgroundColor'' then
            Some [''backgroundColor'' \<mapsto> getProperty (colors th) (toStringJS eng v)]
          else if prop = ''borderRadius'' then
            Some [''borderRadius'' \<mapsto> jor v (JNum (border_radius th))]
          else None))"

definition propsStep :: "js_engine \<Rightarrow> theme \<Rightarrow> props \<Rightarrow> obj \<Rightarrow> string \<Rightarrow> obj" where
  "propsStep eng th ps style prop =
     (if prop = ''theme'' then style
      else case propToStyle eng prop (getp ps prop) th of
        None \<Rightarrow> style
      | Some propStyle \<Rightarrow> style ++ propStyle)"

definition propsToStyle :: "js_engine \<Rightarrow> theme \<Rightarrow> props \<Rightarrow> obj" where
  "propsToStyle eng th ps = foldl (propsStep eng th ps) Map.empty (keys ps)"

text \<open>
  \<open>warning(false, msg)\<close> reports \<open>msg\<close>; the reports are returned next to the result,
  in the order they are made.
\<close>

definition rhythmWarning :: "string \<Rightarrow> string \<Rightarrow> string" where
  "rhythmWarning paddingProp direction =
     ''Increase '' @ paddingProp @ '' to ensure '' @ direction @ '' rhythm. '' @
     ''Use suppressRhythmWarning prop to suppress this warning.''"

text \<open>\<open>paddingValue && (paddingValue - borderWidth) >= 0\<close>, read as a condition.\<close>

definition canCompensate :: "js_engine \<Rightarrow> jsval \<Rightarrow> jsval \<Rightarrow> bool" where
  "canCompensate eng borderWidth paddingValue =
     (truthy paddingValue
      \<and> jge0 (jsub (toNumber eng paddingValue) (toNumber eng borderWidth)))"

definition adjusts :: "jsval \<Rightarrow> string \<Rightarrow> bool" where
  "adjusts border prop = (border = JBool True \<or> border = JStr (toLowerCase prop))"

text \<open>\<open>typeof v === 'string'\<close>.\<close>

definition isString :: "jsval \<Rightarrow> bool" where
  "isString v = (case v of JStr s \<Rightarrow> True | _ \<Rightarrow> False)"

definition adjustStep ::
  "js_engine \<Rightarrow> jsval \<Rightarrow> jsval \<Rightarrow> jsval \<Rightarrow> obj \<Rightarrow> obj \<times> string list \<Rightarrow> string
     \<Rightarrow> obj \<times> string list" where
  "adjustStep eng suppressRhythmWarning border borderWidth style acc prop =
     (let padding = fst acc; warns = snd acc
      in if \<not> adjusts border prop then (padding, warns)
         else
           let paddingProp = ''padding'' @ prop;
               paddingValue = getm style paddingProp
           in if isString paddingValue
              then (padding(paddingProp \<mapsto> paddingValue), warns)
              else if \<not> canCompensate eng borderWidth paddingValue
                        \<and> truthy suppressRhythmWarning
              then (Map.empty, warns)
              else
                let direction =
                      (if prop = ''Left'' \<or> prop = ''Right''
                       then ''horizontal'' else ''vertical'');
                    warns' =
                      (if canCompensate eng borderWidth paddingValue then warns
                       else warns @ [rhythmWarning paddingProp direction]);
                    outl =
                      (if canCompensate eng borderWidth paddingValue then Map.empty
                       else [''outline'' \<mapsto> JStr ''solid 1px red''])
                in ((outl ++ padding)
                      (paddingProp \<mapsto>
                         JNum (jsub (toNumber eng paddingValue) (toNumber eng borderWidth))),
                    warns'))"

definition edgeNames :: "string list" where
  "edgeNames = [''Bottom'', ''Left'', ''Right'', ''Top'']"

definition adjustPaddingForRhythm ::
  "js_engine \<Rightarrow> jsval \<Rightarrow> jsval \<Rightarrow> jsval \<Rightarrow> obj \<Rightarrow> obj \<times> string list" where
  "adjustPaddingForRhythm eng suppressRhythmWarning border borderWidth style =
     (if \<not> truthy borderWidth then (Map.empty, [])
      else foldl (adjustStep eng suppressRhythmWarning border borderWidth style)
             (Map.empty, []) edgeNames)"

text \<open>
  \<open>props.border.charAt(0)\<close> is a call of a string method: on a truthy border that is
  neither \<open>true\<close> nor a string it raises a TypeError.
\<close>

definition borderPropName :: "jsval \<Rightarrow> error + string" where
  "borderPropName border =
     (if border = JBool True then Inr ''border''
      else case border of
        JStr s \<Rightarrow> Inr (''border'' @ toUpperCase (take 1 s) @ drop 1 s)
      | _ \<Rightarrow> Inl TypeError)"

definition borderString :: "js_engine \<Rightarrow> jsval \<Rightarrow> jsval \<Rightarrow> string" where
  "borderString eng borderWidth borderColor =
     ''solid '' @ toStringJS eng borderWidth @ ''px '' @ toStringJS eng borderColor"

text \<open>\<open>props.borderWidth || theme.border.width\<close>.\<close>

definition borderWidthOf :: "theme \<Rightarrow> props \<Rightarrow> jsval" where
  "borderWidthOf th ps = jor (getp ps ''borderWidth'') (JNum (border_width th))"

definition borderColorOf :: "js_engine \<Rightarrow> theme \<Rightarrow> props \<Rightarrow> jsval" where
  "borderColorOf eng th ps =
     (if truthy (getp ps ''borderColor'')
      then getProperty (colors th) (toStringJS eng (getp ps ''borderColor''))
      else getProperty (colors th) ''gray'')"

definition borderWithRhythm ::
  "js_engine \<Rightarrow> theme \<Rightarrow> props \<Rightarrow> obj \<Rightarrow> error + (obj \<times> string list)" where
  "borderWithRhythm eng th ps style =
     (if \<not> truthy (getp ps ''border'') then Inr (style, [])
      else case borderPropName (getp ps ''border'') of
        Inl e \<Rightarrow> Inl e
      | Inr borderProp \<Rightarrow>
         (let borderWidth = borderWidthOf th ps;
              borderColor = borderColorOf eng th ps;
              padding = adjustPaddingForRhythm eng (getp ps ''suppressRhythmWarning'')
                          (getp ps ''border'') borderWidth style
          in Inr ((fst padding)
                    (borderProp \<mapsto> JStr (borderString eng borderWidth borderColor)),
                  snd padding)))"

text \<open>The computed style of a Box and the warnings reported while computing it.\<close>

definition Box :: "js_engine \<Rightarrow> theme \<Rightarrow> props \<Rightarrow> error + (obj \<times> string list)" where
  "Box eng th ps =
     (let style = propsToStyle eng th ps
      in case borderWithRhythm eng th ps style of
           Inl e \<Rightarrow> Inl e
         | Inr r \<Rightarrow> Inr (style ++ fst r, snd r))"

section \<open>Observing a result\<close>

text \<open>
  A fixed engine and theme for evaluating requests. The requests evaluated with them
  have integer widths and no numeric strings, so no result depends on the two engine
  functions chosen here.
\<close>

definition exampleEngine :: js_engine where
  "exampleEngine = \<lparr>stringToNumber = (\<lambda>s. NaN), fmtNumber = (\<lambda>q. ''?'')\<rparr>"

definition exampleTheme :: theme where
  "exampleTheme =
     \<lparr>lineHeight = Num 20, colors = [''gray'' \<mapsto> JStr ''#ccc''],
      border_width = Num 1, border_radius = Num 2\<rparr>"

text \<open>The requests that are evaluated below.\<close>

definition compensationRequest :: props where
  "compensationRequest = [(''border'', JBool True), (''paddingTop'', JNum (Num 1))]"

definition failureRequest :: props where
  "failureRequest = [(''border'', JBool True), (''paddingTop'', JBool False)]"

definition suppressedRequest :: props where
  "suppressedRequest =
     [(''border'', JBool True), (''paddingTop'', JBool False),
      (''suppressRhythmWarning'', JBool True)]"

definition suppressedLossRequest :: props where
  "suppressedLossRequest =
     [(''border'', JBool True), (''paddingBottom'', JNum (Num 1)),
      (''suppressRhythmWarning'', JBool True)]"

definition suppressedPaddedRequest :: props where
  "suppressedPaddedRequest =
     [(''border'', JBool True), (''padding'', JNum (Num 1)),
      (''suppressRhythmWarning'', JBool True)]"

definition wideBorderRequest :: props where
  "wideBorderRequest =
     [(''border'', JBool True), (''borderWidth'', JNum (Num 2)), (''paddingTop'', JNum (Num 1))]"

definition zeroWidthRequest :: props where
  "zeroWidthRequest =
     [(''border'', JBool True), (''borderWidth'', JNum (Num 0)), (''paddingTop'', JNum (Num 1))]"

definition unknownSideRequest :: props where
  "unknownSideRequest = [(''border'', JStr ''Top''), (''paddingTop'', JNum (Num 1))]"




definition diagonalRequest :: props where
  "diagonalRequest = [(''border'', JStr ''diagonal''), (''paddingTop'', JNum (Num 1))]"





text \<open>The property \<open>k\<close> of a computed style, and the warnings, of a run that returned.\<close>

definition styleAt :: "error + (obj \<times> string list) \<Rightarrow> string \<Rightarrow> jsval option" where
  "styleAt r k = (case r of Inl e \<Rightarrow> None | Inr x \<Rightarrow> fst x k)"

definition warningsOf :: "error + (obj \<times> string list) \<Rightarrow> string list" where
  "warningsOf r = (case r of Inl e \<Rightarrow> [] | Inr x \<Rightarrow> snd x)"

text \<open>
  An edge fails compensation: the border touches it, its padding is not a string, and
  \<open>canCompensate\<close> is false. \<open>edgesFrom e\<close> are the edges the reduction visits from
  \<open>e\<close> on.
\<close>

definition failsEdge :: "js_engine \<Rightarrow> jsval \<Rightarrow> jsval \<Rightarrow> obj \<Rightarrow> string \<Rightarrow> bool" where
  "failsEdge eng border borderWidth style prop =
     (adjusts border prop
      \<and> \<not> isString (getm style (''padding'' @ prop))
      \<and> \<not> canCompensate eng borderWidth (getm style (''padding'' @ prop)))"

definition edgesFrom :: "string \<Rightarrow> string list" where
  "edgesFrom e = dropWhile (\<lambda>p. p \<noteq> e) edgeNames"


text \<open>The keys a mapped style can have.\<close>

definition styleKeys :: "string list" where
  "styleKeys = plainProps @ simpleProps @ [''backgroundColor'', ''borderRadius'']"






section \<open>Auxiliary facts\<close>

lemma getp_append_old: "k \<in> set (keys ps) \<Longrightarrow> getp (ps @ qs) k = getp ps k"
  by (auto simp: getp_def getm_def keys_def map_of_append map_add_def split: option.splits
      dest: map_of_eq_None_iff[THEN iffD1] weak_map_of_SomeI)

lemma getp_append_new: "k \<notin> set (keys ps) \<Longrightarrow> getp (ps @ [(k, v)]) k = v"
  by (simp add: getp_def getm_def keys_def map_of_append map_add_def map_of_eq_None_iff[THEN iffD2])

lemma foldl_propsStep_cong:
  "\<forall>k \<in> set ks. getp ps' k = getp ps k \<Longrightarrow>
   foldl (propsStep eng th ps') m ks = foldl (propsStep eng th ps) m ks"
  by (induction ks arbitrary: m) (simp_all add: propsStep_def)

lemma propsToStyle_snoc:
  assumes "k \<notin> set (keys ps)"
  shows "propsToStyle eng th (ps @ [(k, v)]) =
     (if k = ''theme'' then propsToStyle eng th ps
      else case propToStyle eng k v th of
        None \<Rightarrow> propsToStyle eng th ps
      | Some propStyle \<Rightarrow> propsToStyle eng th ps ++ propStyle)"
proof -
  have "foldl (propsStep eng th (ps @ [(k, v)])) Map.empty (keys ps)
        = foldl (propsStep eng th ps) Map.empty (keys ps)"
    by (rule foldl_propsStep_cong) (simp add: getp_append_old)
  then show ?thesis
    using assms unfolding propsToStyle_def keys_def
    by (simp add: propsStep_def getp_append_new keys_def)
qed

lemma directionMapping_simple:
  "directionMapping p = Some (d1, d2) \<Longrightarrow> d1 \<in> set simpleProps \<and> d2 \<in> set simpleProps"
  by (auto simp: directionMapping_def simpleProps_def split: if_splits)


lemma propToStyle_keys:
  assumes "propToStyle eng prop v th = Some e" and "e k = Some x"
  shows "k \<in> set styleKeys"
proof -
  have lit: "set [''marginBottom'', ''marginLeft'', ''marginRight'', ''marginTop'',
     ''paddingBottom'', ''paddingLeft'', ''paddingRight'', ''paddingTop''] \<subseteq> set simpleProps"
    by (simp add: simpleProps_def)
  consider (plain) "prop \<in> set plainProps"
    | (simple) "prop \<notin> set plainProps" "prop \<in> set simpleProps"
    | (dir) d1 d2 where "prop \<notin> set plainProps" "prop \<notin> set simpleProps"
        "directionMapping prop = Some (d1, d2)"
    | (other) "prop \<notin> set plainProps" "prop \<notin> set simpleProps"
        "directionMapping prop = None"
    by (cases "directionMapping prop") auto
  then show ?thesis
  proof cases
    case plain
    with assms show ?thesis
      by (auto simp: propToStyle_def styleKeys_def split: if_splits)
  next
    case simple
    with assms show ?thesis
      by (auto simp: propToStyle_def styleKeys_def split: if_splits)
  next
    case dir
    with assms directionMapping_simple[OF dir(3)] show ?thesis
      by (auto simp: propToStyle_def styleKeys_def split: if_splits)
  next
    case other
    with assms lit show ?thesis
      by (auto simp: propToStyle_def styleKeys_def split: if_splits)
  qed
qed


lemma foldl_propsStep_keys:
  "foldl (propsStep eng th ps) m ks k = Some x \<Longrightarrow> m k = Some x \<or> k \<in> set styleKeys"
proof (induction ks arbitrary: m)
  case Nil
  then show ?case by simp
next
  case (Cons p ks)
  from Cons.IH[of "propsStep eng th ps m p"] Cons.prems
  have "propsStep eng th ps m p k = Some x \<or> k \<in> set styleKeys" by simp
  then show ?case
    by (auto simp: propsStep_def map_add_def split: if_splits option.splits
        dest: propToStyle_keys)
qed

lemma propsToStyle_keys: "propsToStyle eng th ps k = Some x \<Longrightarrow> k \<in> set styleKeys"
  using foldl_propsStep_keys[of eng th ps Map.empty "keys ps" k x]
  by (simp add: propsToStyle_def)

lemma outline_notin_styleKeys: "''outline'' \<notin> set styleKeys"
  by (simp add: styleKeys_def plainProps_def simpleProps_def)

lemma propsToStyle_outline: "propsToStyle eng th ps ''outline'' = None"
  using propsToStyle_keys[of eng th ps "''outline''"] outline_notin_styleKeys
  by (cases "propsToStyle eng th ps ''outline''") auto


lemma lower_edges:
  "toLowerCase ''Bottom'' = ''bottom''" "toLowerCase ''Left'' = ''left''"
  "toLowerCase ''Right'' = ''right''" "toLowerCase ''Top'' = ''top''"
  by code_simp+

lemma adjustStep_skip:
  "\<not> adjusts border prop \<Longrightarrow> adjustStep eng sw border bw style acc prop = acc"
  by (simp add: adjustStep_def)

lemma adjustStep_cases:
  assumes "\<not> adjusts border e \<Longrightarrow> adjustStep eng sw border bw style acc e = acc \<Longrightarrow> P"
    and "adjusts border e \<Longrightarrow> isString (getm style (''padding'' @ e)) \<Longrightarrow>
         adjustStep eng sw border bw style acc e
           = ((fst acc)(''padding'' @ e \<mapsto> getm style (''padding'' @ e)), snd acc) \<Longrightarrow> P"
    and "adjusts border e \<Longrightarrow> \<not> isString (getm style (''padding'' @ e)) \<Longrightarrow>
         \<not> canCompensate eng bw (getm style (''padding'' @ e)) \<Longrightarrow> truthy sw \<Longrightarrow>
         adjustStep eng sw border bw style acc e = (Map.empty, snd acc) \<Longrightarrow> P"
    and "adjusts border e \<Longrightarrow> \<not> isString (getm style (''padding'' @ e)) \<Longrightarrow>
         canCompensate eng bw (getm style (''padding'' @ e)) \<Longrightarrow>
         adjustStep eng sw border bw style acc e
           = ((fst acc)(''padding'' @ e \<mapsto>
                JNum (jsub (toNumber eng (getm style (''padding'' @ e))) (toNumber eng bw))),
              snd acc) \<Longrightarrow> P"
    and "adjusts border e \<Longrightarrow> \<not> isString (getm style (''padding'' @ e)) \<Longrightarrow>
         \<not> canCompensate eng bw (getm style (''padding'' @ e)) \<Longrightarrow> \<not> truthy sw \<Longrightarrow>
         adjustStep eng sw border bw style acc e
           = (([''outline'' \<mapsto> JStr ''solid 1px red''] ++ fst acc)
                (''padding'' @ e \<mapsto>
                   JNum (jsub (toNumber eng (getm style (''padding'' @ e))) (toNumber eng bw))),
              snd acc @ [rhythmWarning (''padding'' @ e)
                (if e = ''Left'' \<or> e = ''Right'' then ''horizontal'' else ''vertical'')])
         \<Longrightarrow> P"
  shows P
proof (cases "adjusts border e")
  case False
  then show ?thesis using assms(1) by (simp add: adjustStep_def)
next
  case adj: True
  show ?thesis
  proof (cases "isString (getm style (''padding'' @ e))")
    case True
    then show ?thesis using adj assms(2) by (simp add: adjustStep_def Let_def)
  next
    case ns: False
    show ?thesis
    proof (cases "canCompensate eng bw (getm style (''padding'' @ e))")
      case True
      then show ?thesis using adj ns assms(4)
        by (simp add: adjustStep_def Let_def)
    next
      case cc: False
      show ?thesis
      proof (cases "truthy sw")
        case True
        then show ?thesis using adj ns cc assms(3)
          by (simp add: adjustStep_def Let_def)
      next
        case False
        then show ?thesis using adj ns cc assms(5)
          by (simp add: adjustStep_def Let_def)
      qed
    qed
  qed
qed


lemma adjustStep_keep:
  "\<not> truthy sw \<or> \<not> failsEdge eng border bw style e \<Longrightarrow>
   k \<noteq> ''padding'' @ e \<Longrightarrow> fst acc k = Some v \<Longrightarrow>
   fst (adjustStep eng sw border bw style acc e) k = Some v"
  by (cases rule: adjustStep_cases[of border e eng sw bw style acc])
     (auto simp: map_add_def failsEdge_def)

lemma adjustStep_set:
  "adjusts border e \<Longrightarrow> getm style (''padding'' @ e) = JNum pv \<Longrightarrow>
   \<not> truthy sw \<or> \<not> failsEdge eng border bw style e \<Longrightarrow>
   fst (adjustStep eng sw border bw style acc e) (''padding'' @ e)
     = Some (JNum (jsub pv (toNumber eng bw)))"
  by (cases rule: adjustStep_cases[of border e eng sw bw style acc])
     (auto simp: failsEdge_def isString_def)

lemma adjustStep_suppressed:
  "truthy sw \<Longrightarrow> fst acc ''outline'' = None \<Longrightarrow>
   fst (adjustStep eng sw border bw style acc e) ''outline'' = None
   \<and> snd (adjustStep eng sw border bw style acc e) = snd acc"
  by (cases rule: adjustStep_cases[of border e eng sw bw style acc]) auto

lemma foldl_adjustStep_suppressed:
  "truthy sw \<Longrightarrow> fst acc ''outline'' = None \<Longrightarrow>
   fst (foldl (adjustStep eng sw border bw style) acc es) ''outline'' = None
   \<and> snd (foldl (adjustStep eng sw border bw style) acc es) = snd acc"
proof (induction es arbitrary: acc)
  case Nil
  then show ?case by simp
next
  case (Cons e es)
  from adjustStep_suppressed[OF Cons.prems, of eng border bw style e]
  have a: "fst (adjustStep eng sw border bw style acc e) ''outline'' = None"
    and b: "snd (adjustStep eng sw border bw style acc e) = snd acc" by simp_all
  from Cons.IH[OF Cons.prems(1) a] b show ?case by simp
qed

lemma adjustPadding_suppressed:
  "truthy sw \<Longrightarrow>
   fst (adjustPaddingForRhythm eng sw border bw style) ''outline'' = None
   \<and> snd (adjustPaddingForRhythm eng sw border bw style) = []"
  using foldl_adjustStep_suppressed[of sw "(Map.empty, [])" eng border bw style edgeNames]
  by (simp add: adjustPaddingForRhythm_def)

lemma borderPropName_prefix:
  "borderPropName b = Inr bp \<Longrightarrow> \<exists>r. bp = ''border'' @ r"
  by (auto simp: borderPropName_def split: if_splits jsval.splits)

lemma adjustPadding_other_border:
  "s \<notin> set [''bottom'', ''left'', ''right'', ''top''] \<Longrightarrow>
   adjustPaddingForRhythm eng sw (JStr s) bw style = (Map.empty, [])"
  by (auto simp: adjustPaddingForRhythm_def edgeNames_def adjustStep_skip adjusts_def lower_edges)


lemma borderWithRhythm_Inr:
  "truthy (getp ps ''border'') \<Longrightarrow> borderPropName (getp ps ''border'') = Inr bp \<Longrightarrow>
   borderWithRhythm eng th ps style =
     Inr ((fst (adjustPaddingForRhythm eng (getp ps ''suppressRhythmWarning'')
                  (getp ps ''border'') (borderWidthOf th ps) style))
            (bp \<mapsto> JStr (borderString eng (borderWidthOf th ps) (borderColorOf eng th ps))),
          snd (adjustPaddingForRhythm eng (getp ps ''suppressRhythmWarning'')
                  (getp ps ''border'') (borderWidthOf th ps) style))"
  by (simp add: borderWithRhythm_def Let_def)

lemma borderWithRhythm_none:
  "\<not> truthy (getp ps ''border'') \<Longrightarrow> borderWithRhythm eng th ps style = Inr (style, [])"
  by (simp add: borderWithRhythm_def)

lemma Box_Inr:
  "borderWithRhythm eng th ps (propsToStyle eng th ps) = Inr (ov, w) \<Longrightarrow>
   Box eng th ps = Inr (propsToStyle eng th ps ++ ov, w)"
  by (simp add: Box_def Let_def)

lemma Box_Inr_iff:
  "Box eng th ps = Inr r \<Longrightarrow>
   \<exists>ov. borderWithRhythm eng th ps (propsToStyle eng th ps) = Inr (ov, snd r)
        \<and> fst r = propsToStyle eng th ps ++ ov"
  by (auto simp: Box_def Let_def split: sum.splits)

lemma foldl_adjustStep_keep:
  "(\<forall>p \<in> set es. (\<not> truthy sw \<or> \<not> failsEdge eng border bw style p) \<and> k \<noteq> ''padding'' @ p) \<Longrightarrow>
   fst acc k = Some v \<Longrightarrow>
   fst (foldl (adjustStep eng sw border bw style) acc es) k = Some v"
proof (induction es arbitrary: acc)
  case Nil
  then show ?case by simp
next
  case (Cons e es)
  have "fst (adjustStep eng sw border bw style acc e) k = Some v"
    using Cons.prems by (intro adjustStep_keep) auto
  with Cons.IH[of "adjustStep eng sw border bw style acc e"] Cons.prems
  show ?case by simp
qed

lemma edge_split:
  "e \<in> set edgeNames \<Longrightarrow>
   \<exists>pre post. edgeNames = pre @ e # post \<and> edgesFrom e = e # post \<and> e \<notin> set post"
proof -
  assume "e \<in> set edgeNames"
  then consider "e = ''Bottom''" | "e = ''Left''" | "e = ''Right''" | "e = ''Top''"
    by (auto simp: edgeNames_def)
  then show ?thesis
  proof cases
    case 1
    then show ?thesis
      by (intro exI[of _ "[]"] exI[of _ "[''Left'', ''Right'', ''Top'']"])
         (simp add: edgeNames_def edgesFrom_def)
  next
    case 2
    then show ?thesis
      by (intro exI[of _ "[''Bottom'']"] exI[of _ "[''Right'', ''Top'']"])
         (simp add: edgeNames_def edgesFrom_def)
  next
    case 3
    then show ?thesis
      by (intro exI[of _ "[''Bottom'', ''Left'']"] exI[of _ "[''Top'']"])
         (simp add: edgeNames_def edgesFrom_def)
  next
    case 4
    then show ?thesis
      by (intro exI[of _ "[''Bottom'', ''Left'', ''Right'']"] exI[of _ "[]"])
         (simp add: edgeNames_def edgesFrom_def)
  qed
qed

lemma adjustPadding_compensated:
  assumes bw: "truthy bw" and e: "e \<in> set edgeNames" and adj: "adjusts border e"
    and pv: "getm style (''padding'' @ e) = JNum pv"
    and ok: "truthy sw \<longrightarrow> (\<forall>p \<in> set (edgesFrom e). \<not> failsEdge eng border bw style p)"
  shows "fst (adjustPaddingForRhythm eng sw border bw style) (''padding'' @ e)
           = Some (JNum (jsub pv (toNumber eng bw)))"
proof -
  from edge_split[OF e] obtain pre post where
    sp: "edgeNames = pre @ e # post" "edgesFrom e = e # post" "e \<notin> set post" by blast
  let ?f = "adjustStep eng sw border bw style"
  let ?acc = "foldl ?f (Map.empty, []) pre"
  have here: "\<not> truthy sw \<or> \<not> failsEdge eng border bw style e"
    using ok sp(2) by auto
  have s1: "fst (?f ?acc e) (''padding'' @ e) = Some (JNum (jsub pv (toNumber eng bw)))"
    by (rule adjustStep_set[OF adj pv here])
  have "fst (foldl ?f (?f ?acc e) post) (''padding'' @ e) = Some (JNum (jsub pv (toNumber eng bw)))"
  proof (rule foldl_adjustStep_keep[OF _ s1])
    show "\<forall>p\<in>set post. (\<not> truthy sw \<or> \<not> failsEdge eng border bw style p)
            \<and> ''padding'' @ e \<noteq> ''padding'' @ p"
      using ok sp(2,3) by auto
  qed
  then show ?thesis using bw by (simp add: adjustPaddingForRhythm_def sp(1))
qed

section \<open>The unit resolver\<close>

text \<open>
  C5. The unit resolver is total: a number \<open>n\<close> resolves to the line height times \<open>n\<close>,
  a non-empty string resolves to itself, and \<open>false\<close>, \<open>undefined\<close>, \<open>0\<close> and the empty
  string resolve to \<open>0\<close>.
\<close>

theorem rhythmOrString_total:
  "rhythmOrString th (JNum n) = JNum (jmul (lineHeight th) n)
   \<and> rhythmOrString (th\<lparr>lineHeight := Num h\<rparr>) (JNum (Num q)) = JNum (Num (q * h))
   \<and> rhythmOrString (th\<lparr>lineHeight := Num h\<rparr>) (JNum (Num 0)) = JNum (Num 0)
   \<and> rhythmOrString th (JStr (c # s)) = JStr (c # s)
   \<and> rhythmOrString th (JBool False) = JNum (Num 0)
   \<and> rhythmOrString th JUndef = JNum (Num 0)
   \<and> rhythmOrString th (JStr []) = JNum (Num 0)"
  by (simp add: rhythmOrString_def jor_def mult.commute)

section \<open>The prop-to-style mapper\<close>

lemma propToStyle_margin:
  "propToStyle eng ''margin'' v th =
     Some [''marginBottom'' \<mapsto> rhythmOrString th v, ''marginLeft'' \<mapsto> rhythmOrString th v,
           ''marginRight'' \<mapsto> rhythmOrString th v, ''marginTop'' \<mapsto> rhythmOrString th v]"
  by (simp add: propToStyle_def plainProps_def simpleProps_def directionMapping_def)

lemma propToStyle_simple:
  "p \<in> set simpleProps \<Longrightarrow> propToStyle eng p v th = Some [p \<mapsto> rhythmOrString th v]"
  by (auto simp: propToStyle_def plainProps_def simpleProps_def)

lemma getProperty_gray: "getProperty m ''gray'' = getm m ''gray''"
  by (simp add: getProperty_def getm_def objectPrototype_def split: option.splits)


lemma propToStyle_backgroundColor:
  "propToStyle eng ''backgroundColor'' v th =
     Some [''backgroundColor'' \<mapsto> getProperty (colors th) (toStringJS eng v)]"
  by (simp add: propToStyle_def plainProps_def simpleProps_def directionMapping_def)

text \<open>
  C1 (as amended). The mapper has no precedence among overlapping props: it visits the
  request's keys in enumeration order and the entries of each prop overwrite the entries
  already written, so the prop enumerated later wins. With a line height of 20,
  \<open>{margin: 1, marginLeft: 0.5}\<close> gives \<open>marginLeft = 10\<close> and 20 on the three other
  edges, and \<open>{marginLeft: 0.5, margin: 1}\<close> gives \<open>marginLeft = 20\<close>.
\<close>

theorem propsToStyle_enumeration_order:
  "(k \<notin> set (keys ps) \<longrightarrow>
      propsToStyle eng th (ps @ [(k, v)]) =
        (if k = ''theme'' then propsToStyle eng th ps
         else case propToStyle eng k v th of
           None \<Rightarrow> propsToStyle eng th ps
         | Some propStyle \<Rightarrow> propsToStyle eng th ps ++ propStyle))
   \<and> (lineHeight th = Num 20 \<longrightarrow>
        propsToStyle eng th [(''margin'', JNum (Num 1)), (''marginLeft'', JNum (Num (1 / 2)))]
          ''marginLeft'' = Some (JNum (Num 10))
      \<and> propsToStyle eng th [(''margin'', JNum (Num 1)), (''marginLeft'', JNum (Num (1 / 2)))]
          ''marginRight'' = Some (JNum (Num 20))
      \<and> propsToStyle eng th [(''margin'', JNum (Num 1)), (''marginLeft'', JNum (Num (1 / 2)))]
          ''marginTop'' = Some (JNum (Num 20))
      \<and> propsToStyle eng th [(''margin'', JNum (Num 1)), (''marginLeft'', JNum (Num (1 / 2)))]
          ''marginBottom'' = Some (JNum (Num 20))
      \<and> propsToStyle eng th [(''marginLeft'', JNum (Num (1 / 2))), (''margin'', JNum (Num 1))]
          ''marginLeft'' = Some (JNum (Num 20)))"
proof (intro conjI impI)
  assume "k \<notin> set (keys ps)"
  then show "propsToStyle eng th (ps @ [(k, v)]) =
        (if k = ''theme'' then propsToStyle eng th ps
         else case propToStyle eng k v th of
           None \<Rightarrow> propsToStyle eng th ps
         | Some propStyle \<Rightarrow> propsToStyle eng th ps ++ propStyle)"
    by (rule propsToStyle_snoc)
next
  assume h: "lineHeight th = Num 20"
  have ml: "propToStyle eng ''marginLeft'' v th = Some [''marginLeft'' \<mapsto> rhythmOrString th v]" for v
    by (rule propToStyle_simple) (simp add: simpleProps_def)
  note ev = propsToStyle_def keys_def propsStep_def getp_def getm_def propToStyle_margin ml
    rhythmOrString_def h
  show "propsToStyle eng th [(''margin'', JNum (Num 1)), (''marginLeft'', JNum (Num (1 / 2)))]
          ''marginLeft'' = Some (JNum (Num 10))"
    by (simp add: ev)
  show "propsToStyle eng th [(''margin'', JNum (Num 1)), (''marginLeft'', JNum (Num (1 / 2)))]
          ''marginRight'' = Some (JNum (Num 20))"
    by (simp add: ev)
  show "propsToStyle eng th [(''margin'', JNum (Num 1)), (''marginLeft'', JNum (Num (1 / 2)))]
          ''marginTop'' = Some (JNum (Num 20))"
    by (simp add: ev)
  show "propsToStyle eng th [(''margin'', JNum (Num 1)), (''marginLeft'', JNum (Num (1 / 2)))]
          ''marginBottom'' = Some (JNum (Num 20))"
    by (simp add: ev)
  show "propsToStyle eng th [(''marginLeft'', JNum (Num (1 / 2))), (''margin'', JNum (Num 1))]
          ''marginLeft'' = Some (JNum (Num 20))"
    by (simp add: ev)
qed

theorem propsToStyle_enumeration_order_witness:
  "''marginLeft'' \<notin> set (keys [(''margin'', JNum (Num 1))])
   \<and> lineHeight exampleTheme = Num 20
   \<and> propsToStyle exampleEngine exampleTheme
        ([(''margin'', JNum (Num 1))] @ [(''marginLeft'', JNum (Num (1 / 2)))])
      = propsToStyle exampleEngine exampleTheme [(''margin'', JNum (Num 1))]
          ++ [''marginLeft'' \<mapsto> JNum (Num 10)]
   \<and> propsToStyle exampleEngine exampleTheme
        [(''marginLeft'', JNum (Num (1 / 2))), (''margin'', JNum (Num 1))] ''marginLeft''
      = Some (JNum (Num 20))"
proof -
  have h1: "''marginLeft'' \<notin> set (keys [(''margin'', JNum (Num 1))])" by (simp add: keys_def)
  have h2: "lineHeight exampleTheme = Num 20" by (simp add: exampleTheme_def)
  have p: "propToStyle exampleEngine ''marginLeft'' (JNum (Num (1 / 2))) exampleTheme
             = Some [''marginLeft'' \<mapsto> JNum (Num 10)]"
    by (simp add: propToStyle_simple simpleProps_def rhythmOrString_def h2)
  from propsToStyle_enumeration_order
    [of "''marginLeft''" "[(''margin'', JNum (Num 1))]" exampleEngine exampleTheme
        "JNum (Num (1 / 2))"]
  show ?thesis using h1 h2 p by simp
qed

text \<open>
  C1 as stated fails: enumerated after \<open>marginLeft\<close>, the shorthand \<open>margin\<close> overrides it.
\<close>

theorem propsToStyle_precedence_counterexample:
  "propsToStyle exampleEngine exampleTheme
     [(''marginLeft'', JNum (Num (1 / 2))), (''margin'', JNum (Num 1))] ''marginLeft''
     = Some (JNum (Num 20))
   \<and> propsToStyle exampleEngine exampleTheme
     [(''marginLeft'', JNum (Num (1 / 2))), (''margin'', JNum (Num 1))] ''marginLeft''
     \<noteq> Some (JNum (Num 10))
   \<and> lineHeight exampleTheme = Num 20"
  by code_simp

text \<open>
  C3 (as amended). Every \<open>backgroundColor\<close> value, \<open>'transparent'\<close> included, is looked up
  in \<open>theme.colors\<close>: \<open>'transparent'\<close> comes out as \<open>undefined\<close> when the theme has no
  such colour and unchanged only when the theme maps it to itself.
\<close>

theorem backgroundColor_lookup:
  "propToStyle eng ''backgroundColor'' v th
     = Some [''backgroundColor'' \<mapsto> getProperty (colors th) (toStringJS eng v)]
   \<and> (colors th ''transparent'' = None \<longrightarrow>
        propToStyle eng ''backgroundColor'' (JStr ''transparent'') th
          = Some [''backgroundColor'' \<mapsto> JUndef])
   \<and> (colors th ''transparent'' = Some (JStr ''transparent'') \<longrightarrow>
        propToStyle eng ''backgroundColor'' (JStr ''transparent'') th
          = Some [''backgroundColor'' \<mapsto> JStr ''transparent''])"
  by (simp add: propToStyle_backgroundColor getProperty_def getm_def objectPrototype_def)

theorem backgroundColor_lookup_witness:
  "colors exampleTheme ''transparent'' = None
   \<and> propToStyle exampleEngine ''backgroundColor'' (JStr ''transparent'') exampleTheme
        = Some [''backgroundColor'' \<mapsto> JUndef]
   \<and> colors (exampleTheme\<lparr>colors := [''transparent'' \<mapsto> JStr ''transparent'']\<rparr>) ''transparent''
        = Some (JStr ''transparent'')
   \<and> propToStyle exampleEngine ''backgroundColor'' (JStr ''transparent'')
        (exampleTheme\<lparr>colors := [''transparent'' \<mapsto> JStr ''transparent'']\<rparr>)
        = Some [''backgroundColor'' \<mapsto> JStr ''transparent'']"
proof -
  have h1: "colors exampleTheme ''transparent'' = None" by (simp add: exampleTheme_def)
  have h2: "colors (exampleTheme\<lparr>colors := [''transparent'' \<mapsto> JStr ''transparent'']\<rparr>)
              ''transparent'' = Some (JStr ''transparent'')" by simp
  from backgroundColor_lookup[of exampleEngine "JStr ''transparent''" exampleTheme]
       backgroundColor_lookup[of exampleEngine "JStr ''transparent''"
         "exampleTheme\<lparr>colors := [''transparent'' \<mapsto> JStr ''transparent'']\<rparr>"]
  show ?thesis using h1 h2 by blast
qed

text \<open>
  C3 as stated fails on a theme without a colour named \<open>transparent\<close>.
\<close>

theorem backgroundColor_transparent_counterexample:
  "propToStyle exampleEngine ''backgroundColor'' (JStr ''transparent'') exampleTheme
     = Some [''backgroundColor'' \<mapsto> JUndef]
   \<and> propToStyle exampleEngine ''backgroundColor'' (JStr ''transparent'') exampleTheme
     \<noteq> Some [''backgroundColor'' \<mapsto> JStr ''transparent'']"
proof -
  have a: "propToStyle exampleEngine ''backgroundColor'' (JStr ''transparent'') exampleTheme
     = Some [''backgroundColor'' \<mapsto> JUndef]"
    by (simp add: propToStyle_backgroundColor getProperty_def getm_def objectPrototype_def
        exampleTheme_def)
  have "[''backgroundColor'' \<mapsto> JUndef] ''backgroundColor''
      \<noteq> [''backgroundColor'' \<mapsto> JStr ''transparent''] ''backgroundColor''" by simp
  then have "[''backgroundColor'' \<mapsto> JUndef] \<noteq> [''backgroundColor'' \<mapsto> JStr ''transparent'']"
    by metis
  with a show ?thesis by simp
qed

section \<open>The border-rhythm compensator\<close>

lemma styleAt_Box:
  "borderWithRhythm eng th ps (propsToStyle eng th ps) = Inr (ov, w) \<Longrightarrow>
   \<not> isl (Box eng th ps) \<and> warningsOf (Box eng th ps) = w
   \<and> styleAt (Box eng th ps) k = (propsToStyle eng th ps ++ ov) k"
  by (simp add: Box_Inr styleAt_def warningsOf_def)

text \<open>
  C10. A border prop that is a non-empty string other than the four lower-case side names
  adjusts no padding edge (the padding overlay is empty and nothing is reported), and the
  computed style still gains the key \<open>border\<close> followed by the capitalised string, set to
  \<open>solid <width>px <color>\<close>.
\<close>

theorem unknown_side_border:
  assumes "getp ps ''border'' = JStr s" and "s \<noteq> []"
    and "s \<notin> set [''top'', ''bottom'', ''left'', ''right'']"
  shows "adjustPaddingForRhythm eng (getp ps ''suppressRhythmWarning'') (getp ps ''border'')
           (borderWidthOf th ps) (propsToStyle eng th ps) = (Map.empty, [])
     \<and> Box eng th ps =
         Inr ((propsToStyle eng th ps)
                (''border'' @ toUpperCase (take 1 s) @ drop 1 s \<mapsto>
                   JStr (''solid '' @ toStringJS eng (borderWidthOf th ps) @ ''px ''
                         @ toStringJS eng (borderColorOf eng th ps))),
              [])"
proof -
  have ov: "adjustPaddingForRhythm eng (getp ps ''suppressRhythmWarning'') (getp ps ''border'')
           (borderWidthOf th ps) (propsToStyle eng th ps) = (Map.empty, [])"
    using assms(1,3) by (simp add: adjustPadding_other_border)
  have t: "truthy (getp ps ''border'')" using assms(1,2) by simp
  have n: "borderPropName (getp ps ''border'')
             = Inr (''border'' @ toUpperCase (take 1 s) @ drop 1 s)"
    using assms(1) by (simp add: borderPropName_def)
  from borderWithRhythm_Inr[OF t n, of eng th "propsToStyle eng th ps"] ov
  have "borderWithRhythm eng th ps (propsToStyle eng th ps) =
     Inr ([''border'' @ toUpperCase (take 1 s) @ drop 1 s \<mapsto>
             JStr (borderString eng (borderWidthOf th ps) (borderColorOf eng th ps))], [])"
    by simp
  from Box_Inr[OF this] ov show ?thesis by (simp add: borderString_def)
qed

text \<open>
  The request \<open>{border: 'Top', paddingTop: 1}\<close>: \<open>borderTop\<close> is set, \<open>paddingTop\<close> stays 20.
  The request \<open>{border: 'diagonal', paddingTop: 1}\<close>: the key is \<open>borderDiagonal\<close>, with the
  capital.
\<close>

theorem unknown_side_border_witness:
  "getp unknownSideRequest ''border'' = JStr ''Top'' \<and> ''Top'' \<noteq> []
   \<and> ''Top'' \<notin> set [''top'', ''bottom'', ''left'', ''right'']
   \<and> styleAt (Box exampleEngine exampleTheme unknownSideRequest) ''borderTop''
       = Some (JStr ''solid 1px #ccc'')
   \<and> styleAt (Box exampleEngine exampleTheme unknownSideRequest) ''paddingTop''
       = Some (JNum (Num 20))
   \<and> getp diagonalRequest ''border'' = JStr ''diagonal'' \<and> ''diagonal'' \<noteq> []
   \<and> ''diagonal'' \<notin> set [''top'', ''bottom'', ''left'', ''right'']
   \<and> styleAt (Box exampleEngine exampleTheme diagonalRequest) ''borderDiagonal''
       = Some (JStr ''solid 1px #ccc'')
   \<and> styleAt (Box exampleEngine exampleTheme diagonalRequest) ''borderdiagonal'' = None
   \<and> styleAt (Box exampleEngine exampleTheme diagonalRequest) ''paddingTop''
       = Some (JNum (Num 20))"
proof -
  have h1: "getp unknownSideRequest ''border'' = JStr ''Top''" by code_simp
  have h2: "''Top'' \<noteq> []" by simp
  have h3: "''Top'' \<notin> set [''top'', ''bottom'', ''left'', ''right'']" by simp
  have w: "toStringJS exampleEngine (borderWidthOf exampleTheme unknownSideRequest) = ''1''"
    by code_simp
  have c: "toStringJS exampleEngine (borderColorOf exampleEngine exampleTheme unknownSideRequest)
             = ''#ccc''"
    by code_simp
  have u: "toUpperCase (take 1 ''Top'') @ drop 1 ''Top'' = ''Top''"
    by code_simp
  have p: "propsToStyle exampleEngine exampleTheme unknownSideRequest ''paddingTop''
             = Some (JNum (Num 20))"
    by code_simp
  from unknown_side_border[OF h1 h2 h3, of exampleEngine exampleTheme]
  have "Box exampleEngine exampleTheme unknownSideRequest =
     Inr ((propsToStyle exampleEngine exampleTheme unknownSideRequest)
            (''borderTop'' \<mapsto> JStr ''solid 1px #ccc''), [])"
    by (simp only: w c u append.simps)
  then have a: "styleAt (Box exampleEngine exampleTheme unknownSideRequest) ''borderTop''
       = Some (JStr ''solid 1px #ccc'')"
    "styleAt (Box exampleEngine exampleTheme unknownSideRequest) ''paddingTop''
       = Some (JNum (Num 20))"
    using p by (simp_all add: styleAt_def)
  have g1: "getp diagonalRequest ''border'' = JStr ''diagonal''" by code_simp
  have g2: "''diagonal'' \<noteq> []" by simp
  have g3: "''diagonal'' \<notin> set [''top'', ''bottom'', ''left'', ''right'']" by simp
  have dw: "toStringJS exampleEngine (borderWidthOf exampleTheme diagonalRequest) = ''1''"
    by code_simp
  have dc: "toStringJS exampleEngine (borderColorOf exampleEngine exampleTheme diagonalRequest)
             = ''#ccc''"
    by code_simp
  have du: "toUpperCase (take 1 ''diagonal'') @ drop 1 ''diagonal'' = ''Diagonal''"
    by code_simp
  have dp: "propsToStyle exampleEngine exampleTheme diagonalRequest ''paddingTop''
             = Some (JNum (Num 20))"
    "propsToStyle exampleEngine exampleTheme diagonalRequest ''borderdiagonal'' = None"
    by code_simp+
  from unknown_side_border[OF g1 g2 g3, of exampleEngine exampleTheme]
  have "Box exampleEngine exampleTheme diagonalRequest =
     Inr ((propsToStyle exampleEngine exampleTheme diagonalRequest)
            (''borderDiagonal'' \<mapsto> JStr ''solid 1px #ccc''), [])"
    by (simp only: dw dc du append.simps)
  then have b: "styleAt (Box exampleEngine exampleTheme diagonalRequest) ''borderDiagonal''
       = Some (JStr ''solid 1px #ccc'')"
    "styleAt (Box exampleEngine exampleTheme diagonalRequest) ''borderdiagonal'' = None"
    "styleAt (Box exampleEngine exampleTheme diagonalRequest) ''paddingTop''
       = Some (JNum (Num 20))"
    using dp by (simp_all add: styleAt_def)
  show ?thesis using h1 h2 h3 a g1 g2 g3 b by blast
qed

lemma failureRequest_style:
  "propsToStyle eng th failureRequest = [''paddingTop'' \<mapsto> JNum (Num 0)]"
  by (simp add: failureRequest_def propsToStyle_def keys_def propsStep_def getp_def getm_def
      propToStyle_def plainProps_def simpleProps_def directionMapping_def rhythmOrString_def
      jor_def)

text \<open>
  C2 (as amended). For \<open>{border: true, paddingTop: false}\<close> without
  \<open>suppressRhythmWarning\<close> and a non-zero border width \<open>w\<close>, the run reports one warning
  per edge, the computed style has \<open>outline = "solid 1px red"\<close>, and \<open>paddingTop\<close> is the
  resolved value minus the border width, \<open>0 - w\<close>: the subtraction is applied whether or not
  the edge can be compensated.
\<close>

theorem uncompensated_padding:
  assumes "border_width th = Num w" and "w \<noteq> 0"
  shows "\<not> isl (Box eng th failureRequest)
     \<and> warningsOf (Box eng th failureRequest) =
         [rhythmWarning ''paddingBottom'' ''vertical'', rhythmWarning ''paddingLeft'' ''horizontal'',
          rhythmWarning ''paddingRight'' ''horizontal'', rhythmWarning ''paddingTop'' ''vertical'']
     \<and> styleAt (Box eng th failureRequest) ''outline'' = Some (JStr ''solid 1px red'')
     \<and> propsToStyle eng th failureRequest ''paddingTop'' = Some (JNum (Num 0))
     \<and> styleAt (Box eng th failureRequest) ''paddingTop'' = Some (JNum (Num (0 - w)))"
proof -
  let ?st = "[''paddingTop'' \<mapsto> JNum (Num 0)]"
  let ?r = "adjustPaddingForRhythm eng JUndef (JBool True) (JNum (Num w)) ?st"
  note ev = adjustPaddingForRhythm_def edgeNames_def adjustStep_def Let_def adjusts_def
    isString_def canCompensate_def getm_def
  have b: "getp failureRequest ''border'' = JBool True"
    and sw: "getp failureRequest ''suppressRhythmWarning'' = JUndef"
    by (simp_all add: failureRequest_def getp_def getm_def)
  have bw: "borderWidthOf th failureRequest = JNum (Num w)"
    using assms by (simp add: borderWidthOf_def failureRequest_def getp_def getm_def jor_def)
  have r1: "snd ?r =
         [rhythmWarning ''paddingBottom'' ''vertical'', rhythmWarning ''paddingLeft'' ''horizontal'',
          rhythmWarning ''paddingRight'' ''horizontal'', rhythmWarning ''paddingTop'' ''vertical'']"
    using assms(2) by (simp add: ev)
  have r2: "fst ?r ''outline'' = Some (JStr ''solid 1px red'')"
    using assms(2) by (simp add: ev)
  have r3: "fst ?r ''paddingTop'' = Some (JNum (Num (0 - w)))"
    using assms(2) by (simp add: ev)
  have "borderWithRhythm eng th failureRequest ?st =
          Inr ((fst ?r)(''border'' \<mapsto>
                 JStr (borderString eng (JNum (Num w)) (borderColorOf eng th failureRequest))),
               snd ?r)"
    using borderWithRhythm_Inr[of failureRequest "''border''" eng th ?st]
    by (simp add: b sw bw borderPropName_def)
  from styleAt_Box[of eng th failureRequest, unfolded failureRequest_style, OF this]
  show ?thesis using r1 r2 r3 by (simp add: failureRequest_style)
qed


text \<open>
  With the default width 1 the uncompensated \<open>paddingTop\<close> is \<open>-1\<close>.
\<close>

theorem uncompensated_padding_witness:
  "border_width exampleTheme = Num 1 \<and> (1::rat) \<noteq> 0
   \<and> styleAt (Box exampleEngine exampleTheme failureRequest) ''outline''
       = Some (JStr ''solid 1px red'')
   \<and> styleAt (Box exampleEngine exampleTheme failureRequest) ''paddingTop''
       = Some (JNum (Num (- 1)))"
proof -
  have h1: "border_width exampleTheme = Num 1" by (simp add: exampleTheme_def)
  have h2: "(1::rat) \<noteq> 0" by simp
  from uncompensated_padding[OF h1 h2, of exampleEngine] show ?thesis using h1 by simp
qed

text \<open>
  C2 as stated fails: the resolved \<open>paddingTop\<close> is 0 and the computed style holds \<open>-1\<close>.
\<close>

theorem uncompensated_padding_counterexample:
  "propsToStyle exampleEngine exampleTheme failureRequest ''paddingTop'' = Some (JNum (Num 0))
   \<and> styleAt (Box exampleEngine exampleTheme failureRequest) ''paddingTop''
       = Some (JNum (Num (- 1)))
   \<and> styleAt (Box exampleEngine exampleTheme failureRequest) ''paddingTop''
       \<noteq> Some (JNum (Num 0))"
  by code_simp

lemma Box_suppressed:
  assumes s: "truthy (getp ps ''suppressRhythmWarning'')" and r: "Box eng th ps = Inr r"
  shows "snd r = [] \<and> fst r ''outline'' = None"
proof -
  from Box_Inr_iff[OF r] obtain ov where
    ov: "borderWithRhythm eng th ps (propsToStyle eng th ps) = Inr (ov, snd r)"
    and f: "fst r = propsToStyle eng th ps ++ ov" by blast
  have "snd r = [] \<and> ov ''outline'' = None"
  proof (cases "truthy (getp ps ''border'')")
    case False
    with ov have "ov = propsToStyle eng th ps" "snd r = []"
      by (simp_all add: borderWithRhythm_none)
    then show ?thesis by (simp add: propsToStyle_outline)
  next
    case True
    from ov True obtain bp where bp: "borderPropName (getp ps ''border'') = Inr bp"
      by (cases "borderPropName (getp ps ''border'')") (simp_all add: borderWithRhythm_def)
    from borderPropName_prefix[OF bp] have ne: "bp \<noteq> ''outline''" by auto
    from borderWithRhythm_Inr[OF True bp, of eng th "propsToStyle eng th ps"] ov
      adjustPadding_suppressed[OF s, of eng "getp ps ''border''" "borderWidthOf th ps"
        "propsToStyle eng th ps"] ne
    show ?thesis by auto
  qed
  with f show ?thesis by (simp add: map_add_def propsToStyle_outline)
qed

text \<open>
  C6. With \<open>suppressRhythmWarning\<close> set, an edge that fails compensation resets the padding
  overlay accumulated so far to the empty object and reports nothing; no run with the
  prop set reports a warning or has an \<open>outline\<close> key; and the request
  \<open>{border: true, paddingTop: false, suppressRhythmWarning: true}\<close> returns with no warning
  and no \<open>outline\<close>.
\<close>

theorem suppressed_failure:
  "(truthy sw \<and> failsEdge eng border bw style e \<longrightarrow>
      adjustStep eng sw border bw style acc e = (Map.empty, snd acc))
   \<and> (truthy (getp ps ''suppressRhythmWarning'') \<and> Box eng th ps = Inr r \<longrightarrow>
        snd r = [] \<and> fst r ''outline'' = None)
   \<and> \<not> isl (Box eng th suppressedRequest)
   \<and> warningsOf (Box eng th suppressedRequest) = []
   \<and> styleAt (Box eng th suppressedRequest) ''outline'' = None"
proof (intro conjI impI)
  assume "truthy sw \<and> failsEdge eng border bw style e"
  then show "adjustStep eng sw border bw style acc e = (Map.empty, snd acc)"
    by (simp add: adjustStep_def failsEdge_def Let_def)
next
  assume "truthy (getp ps ''suppressRhythmWarning'') \<and> Box eng th ps = Inr r"
  then show "snd r = []" "fst r ''outline'' = None" using Box_suppressed by blast+
next
  have b: "getp suppressedRequest ''border'' = JBool True"
    and s: "truthy (getp suppressedRequest ''suppressRhythmWarning'')"
    by (simp_all add: suppressedRequest_def getp_def getm_def)
  have "\<exists>x. borderWithRhythm eng th suppressedRequest (propsToStyle eng th suppressedRequest)
          = Inr x"
    using borderWithRhythm_Inr[of suppressedRequest "''border''" eng th]
    by (simp add: b borderPropName_def)
  then obtain x where "Box eng th suppressedRequest = Inr x"
    by (auto simp: Box_def Let_def)
  with Box_suppressed[OF s this]
  show "\<not> isl (Box eng th suppressedRequest)"
    "warningsOf (Box eng th suppressedRequest) = []"
    "styleAt (Box eng th suppressedRequest) ''outline'' = None"
    by (simp_all add: styleAt_def warningsOf_def)
qed

text \<open>
  A failing top edge discards the compensated bottom padding accumulated before it.
\<close>

theorem suppressed_failure_witness:
  "truthy (JBool True)
   \<and> failsEdge exampleEngine (JBool True) (JNum (Num 1))
        [''paddingBottom'' \<mapsto> JNum (Num 20)] ''Top''
   \<and> adjustStep exampleEngine (JBool True) (JBool True) (JNum (Num 1))
        [''paddingBottom'' \<mapsto> JNum (Num 20)]
        ([''paddingBottom'' \<mapsto> JNum (Num 19)], []) ''Top'' = (Map.empty, [])
   \<and> truthy (getp suppressedRequest ''suppressRhythmWarning'')
   \<and> \<not> isl (Box exampleEngine exampleTheme suppressedRequest)
   \<and> snd (projr (Box exampleEngine exampleTheme suppressedRequest)) = []
   \<and> fst (projr (Box exampleEngine exampleTheme suppressedRequest)) ''outline'' = None"
proof -
  have h1: "truthy (JBool True)" by simp
  have h2: "failsEdge exampleEngine (JBool True) (JNum (Num 1))
        [''paddingBottom'' \<mapsto> JNum (Num 20)] ''Top''" by code_simp
  have h3: "truthy (getp suppressedRequest ''suppressRhythmWarning'')" by code_simp
  have h4: "\<not> isl (Box exampleEngine exampleTheme suppressedRequest)" by code_simp
  then have h5: "Box exampleEngine exampleTheme suppressedRequest
                  = Inr (projr (Box exampleEngine exampleTheme suppressedRequest))" by simp
  from suppressed_failure[of "JBool True" exampleEngine "JBool True" "JNum (Num 1)"
      "[''paddingBottom'' \<mapsto> JNum (Num 20)]" "''Top''"
      "([''paddingBottom'' \<mapsto> JNum (Num 19)], [])" suppressedRequest exampleTheme
      "projr (Box exampleEngine exampleTheme suppressedRequest)"]
  show ?thesis using h1 h2 h3 h4 h5 by simp
qed


lemma styleAt_borderWithRhythm:
  assumes t: "truthy (getp ps ''border'')" and n: "borderPropName (getp ps ''border'') = Inr bp"
  shows "styleAt (borderWithRhythm eng th ps style) bp
           = Some (JStr (borderString eng (borderWidthOf th ps) (borderColorOf eng th ps)))"
    and "k \<noteq> bp \<Longrightarrow> styleAt (borderWithRhythm eng th ps style) k
           = fst (adjustPaddingForRhythm eng (getp ps ''suppressRhythmWarning'')
                    (getp ps ''border'') (borderWidthOf th ps) style) k"
  by (simp_all add: borderWithRhythm_Inr[OF t n] styleAt_def)

lemma padding_not_border:
  "borderPropName b = Inr bp \<Longrightarrow> ''padding'' @ e \<noteq> bp"
  by (auto dest: borderPropName_prefix)

text \<open>
  C7 (as amended). For a truthy border prop the stroke width used both for the padding
  compensation and in the border string is \<open>props.borderWidth\<close> when that value is truthy,
  and \<open>theme.border.width\<close> otherwise: an absent width and the width 0 both fall back to
  the theme.
\<close>

theorem border_width_choice:
  assumes "truthy (getp ps ''border'')" and "borderPropName (getp ps ''border'') = Inr bp"
  shows "borderWidthOf th ps =
           (if truthy (getp ps ''borderWidth'') then getp ps ''borderWidth''
            else JNum (border_width th))
     \<and> (getp ps ''borderWidth'' = JNum (Num 0) \<longrightarrow> borderWidthOf th ps = JNum (border_width th))
     \<and> borderWithRhythm eng th ps style =
         Inr ((fst (adjustPaddingForRhythm eng (getp ps ''suppressRhythmWarning'')
                      (getp ps ''border'') (borderWidthOf th ps) style))
                (bp \<mapsto> JStr (''solid '' @ toStringJS eng (borderWidthOf th ps) @ ''px ''
                              @ toStringJS eng (borderColorOf eng th ps))),
              snd (adjustPaddingForRhythm eng (getp ps ''suppressRhythmWarning'')
                      (getp ps ''border'') (borderWidthOf th ps) style))"
  using borderWithRhythm_Inr[OF assms, of eng th style]
  by (simp add: borderWidthOf_def jor_def borderString_def)

text \<open>
  Width 2 is taken from the request; width 0 is replaced by the theme's width.
\<close>

theorem border_width_choice_witness:
  "truthy (getp wideBorderRequest ''border'')
   \<and> borderPropName (getp wideBorderRequest ''border'') = Inr ''border''
   \<and> borderWidthOf exampleTheme wideBorderRequest = JNum (Num 2)
   \<and> styleAt (borderWithRhythm exampleEngine exampleTheme wideBorderRequest
                 (propsToStyle exampleEngine exampleTheme wideBorderRequest)) ''border''
       = Some (JStr ''solid 2px #ccc'')
   \<and> truthy (getp zeroWidthRequest ''border'')
   \<and> borderPropName (getp zeroWidthRequest ''border'') = Inr ''border''
   \<and> getp zeroWidthRequest ''borderWidth'' = JNum (Num 0)
   \<and> borderWidthOf exampleTheme zeroWidthRequest = JNum (border_width exampleTheme)"
proof -
  have h1: "truthy (getp wideBorderRequest ''border'')" by code_simp
  have h2: "borderPropName (getp wideBorderRequest ''border'') = Inr ''border''" by code_simp
  have h3: "truthy (getp zeroWidthRequest ''border'')" by code_simp
  have h4: "borderPropName (getp zeroWidthRequest ''border'') = Inr ''border''" by code_simp
  have h5: "getp zeroWidthRequest ''borderWidth'' = JNum (Num 0)" by code_simp
  have w: "getp wideBorderRequest ''borderWidth'' = JNum (Num 2)" by code_simp
  have c: "toStringJS exampleEngine (borderColorOf exampleEngine exampleTheme wideBorderRequest)
             = ''#ccc''" by code_simp
  have d: "numToString exampleEngine (Num 2) = ''2''" by code_simp
  from border_width_choice[OF h1 h2, of exampleTheme exampleEngine
      "propsToStyle exampleEngine exampleTheme wideBorderRequest"]
  have a: "borderWidthOf exampleTheme wideBorderRequest = JNum (Num 2)"
    and b: "styleAt (borderWithRhythm exampleEngine exampleTheme wideBorderRequest
                 (propsToStyle exampleEngine exampleTheme wideBorderRequest)) ''border''
       = Some (JStr ''solid 2px #ccc'')"
    by (simp_all add: w c d styleAt_def)
  from border_width_choice[OF h3 h4, of exampleTheme exampleEngine Map.empty] h5
  have e: "borderWidthOf exampleTheme zeroWidthRequest = JNum (border_width exampleTheme)"
    by blast
  show ?thesis using h1 h2 h3 h4 h5 a b e by blast
qed

text \<open>
  C7 as stated fails: with \<open>borderWidth: 0\<close> the border string says \<open>1px\<close> and the
  padding is reduced by 1.
\<close>

theorem border_width_zero_counterexample:
  "getp zeroWidthRequest ''borderWidth'' = JNum (Num 0)
   \<and> styleAt (Box exampleEngine exampleTheme zeroWidthRequest) ''border''
       = Some (JStr ''solid 1px #ccc'')
   \<and> styleAt (Box exampleEngine exampleTheme zeroWidthRequest) ''border''
       \<noteq> Some (JStr ''solid 0px #ccc'')
   \<and> styleAt (Box exampleEngine exampleTheme zeroWidthRequest) ''paddingTop''
       = Some (JNum (Num 19))"
  by code_simp

lemma compensationRequest_style:
  "lineHeight th = Num 20 \<Longrightarrow>
   propsToStyle eng th compensationRequest = [''paddingTop'' \<mapsto> JNum (Num 20)]"
  by (simp add: compensationRequest_def propsToStyle_def keys_def propsStep_def getp_def getm_def
      propToStyle_def plainProps_def simpleProps_def directionMapping_def rhythmOrString_def)

lemma numToString_1: "numToString eng (Num 1) = ''1''"
  by (simp add: numToString_def isInt_def digits.simps digit_def)

text \<open>
  C4 (as amended). With line height 20 and border width 1, \<open>{border: true, paddingTop: 1}\<close>
  yields \<open>paddingTop = 19\<close> and \<open>border = "solid 1px <gray>"\<close>. For a truthy border the
  overlay always sets the border property to \<open>solid <width>px <color>\<close>. When the width is
  truthy, an affected edge has a numeric padding \<open>pv\<close> with \<open>pv - width >= 0\<close>, and either
  \<open>suppressRhythmWarning\<close> is unset or no edge visited from that edge on fails
  compensation, the overlay holds \<open>pv - width\<close> for that edge.
\<close>

theorem border_compensation:
  "(lineHeight th = Num 20 \<and> border_width th = Num 1 \<longrightarrow>
      styleAt (Box eng th compensationRequest) ''paddingTop'' = Some (JNum (Num 19))
      \<and> styleAt (Box eng th compensationRequest) ''border''
          = Some (JStr (''solid 1px '' @ toStringJS eng (getm (colors th) ''gray''))))
   \<and> (truthy (getp ps ''border'') \<and> borderPropName (getp ps ''border'') = Inr bp \<longrightarrow>
        styleAt (borderWithRhythm eng th ps style) bp
          = Some (JStr (''solid '' @ toStringJS eng (borderWidthOf th ps) @ ''px ''
                        @ toStringJS eng (borderColorOf eng th ps))))
   \<and> (truthy (getp ps ''border'') \<and> borderPropName (getp ps ''border'') = Inr bp
        \<and> truthy (borderWidthOf th ps)
        \<and> e \<in> set edgeNames \<and> adjusts (getp ps ''border'') e
        \<and> style (''padding'' @ e) = Some (JNum pv)
        \<and> jge0 (jsub pv (toNumber eng (borderWidthOf th ps)))
        \<and> (truthy (getp ps ''suppressRhythmWarning'') \<longrightarrow>
             (\<forall>p \<in> set (edgesFrom e).
                \<not> failsEdge eng (getp ps ''border'') (borderWidthOf th ps) style p))
      \<longrightarrow> styleAt (borderWithRhythm eng th ps style) (''padding'' @ e)
            = Some (JNum (jsub pv (toNumber eng (borderWidthOf th ps)))))"
proof (intro conjI impI)
  assume h: "truthy (getp ps ''border'') \<and> borderPropName (getp ps ''border'') = Inr bp"
  then show "styleAt (borderWithRhythm eng th ps style) bp
          = Some (JStr (''solid '' @ toStringJS eng (borderWidthOf th ps) @ ''px ''
                        @ toStringJS eng (borderColorOf eng th ps)))"
    by (simp add: styleAt_borderWithRhythm(1) borderString_def)
next
  assume h: "truthy (getp ps ''border'') \<and> borderPropName (getp ps ''border'') = Inr bp
        \<and> truthy (borderWidthOf th ps)
        \<and> e \<in> set edgeNames \<and> adjusts (getp ps ''border'') e
        \<and> style (''padding'' @ e) = Some (JNum pv)
        \<and> jge0 (jsub pv (toNumber eng (borderWidthOf th ps)))
        \<and> (truthy (getp ps ''suppressRhythmWarning'') \<longrightarrow>
             (\<forall>p \<in> set (edgesFrom e).
                \<not> failsEdge eng (getp ps ''border'') (borderWidthOf th ps) style p))"
  then have pv: "getm style (''padding'' @ e) = JNum pv" by (simp add: getm_def)
  from h have ne: "''padding'' @ e \<noteq> bp" by (blast dest: padding_not_border)
  from h have "fst (adjustPaddingForRhythm eng (getp ps ''suppressRhythmWarning'')
             (getp ps ''border'') (borderWidthOf th ps) style) (''padding'' @ e)
           = Some (JNum (jsub pv (toNumber eng (borderWidthOf th ps))))"
    by (intro adjustPadding_compensated pv) blast+
  with h ne show "styleAt (borderWithRhythm eng th ps style) (''padding'' @ e)
            = Some (JNum (jsub pv (toNumber eng (borderWidthOf th ps))))"
    by (simp add: styleAt_borderWithRhythm(2))
next
  assume h: "lineHeight th = Num 20 \<and> border_width th = Num 1"
  let ?P = compensationRequest
  let ?st = "[''paddingTop'' \<mapsto> JNum (Num 20)]"
  have st: "propsToStyle eng th ?P = ?st" using h by (simp add: compensationRequest_style)
  have b: "getp ?P ''border'' = JBool True"
    and sw: "getp ?P ''suppressRhythmWarning'' = JUndef"
    by (simp_all add: compensationRequest_def getp_def getm_def)
  have bw: "borderWidthOf th ?P = JNum (Num 1)"
    using h by (simp add: borderWidthOf_def compensationRequest_def getp_def getm_def jor_def)
  have bc: "borderColorOf eng th ?P = getm (colors th) ''gray''"
    by (simp add: borderColorOf_def compensationRequest_def getp_def getm_def getProperty_gray)
  have t: "truthy (getp ?P ''border'')" and n: "borderPropName (getp ?P ''border'') = Inr ''border''"
    by (simp_all add: b borderPropName_def)
  have "fst (adjustPaddingForRhythm eng JUndef (JBool True) (JNum (Num 1)) ?st)
          (''padding'' @ ''Top'') = Some (JNum (jsub (Num 20) (toNumber eng (JNum (Num 1)))))"
    by (rule adjustPadding_compensated) (simp_all add: edgeNames_def adjusts_def getm_def)
  then have ov: "styleAt (borderWithRhythm eng th ?P ?st) ''paddingTop'' = Some (JNum (Num 19))"
    using styleAt_borderWithRhythm(2)[OF t n, of "''paddingTop''" eng th ?st]
    by (simp add: b sw bw)
  have ob: "styleAt (borderWithRhythm eng th ?P ?st) ''border''
              = Some (JStr (''solid 1px '' @ toStringJS eng (getm (colors th) ''gray'')))"
    using styleAt_borderWithRhythm(1)[OF t n, of eng th ?st]
    by (simp add: bw bc borderString_def numToString_1)
  from borderWithRhythm_Inr[OF t n, of eng th ?st]
  obtain ov w where r: "borderWithRhythm eng th ?P ?st = Inr (ov, w)" by simp
  from styleAt_Box[of eng th ?P ov w] r st
  have bx: "styleAt (Box eng th ?P) k = (?st ++ ov) k" for k by simp
  from ov ob r have "ov ''paddingTop'' = Some (JNum (Num 19))"
    "ov ''border'' = Some (JStr (''solid 1px '' @ toStringJS eng (getm (colors th) ''gray'')))"
    by (simp_all add: styleAt_def)
  then show "styleAt (Box eng th ?P) ''paddingTop'' = Some (JNum (Num 19))"
    "styleAt (Box eng th ?P) ''border''
       = Some (JStr (''solid 1px '' @ toStringJS eng (getm (colors th) ''gray'')))"
    by (simp_all add: bx)
qed


text \<open>
  All four edges padded by one line, warnings suppressed: the bottom edge, visited first,
  keeps its compensated padding.
\<close>

theorem border_compensation_witness:
  "lineHeight exampleTheme = Num 20 \<and> border_width exampleTheme = Num 1
   \<and> styleAt (Box exampleEngine exampleTheme compensationRequest) ''paddingTop''
       = Some (JNum (Num 19))
   \<and> styleAt (Box exampleEngine exampleTheme compensationRequest) ''border''
       = Some (JStr ''solid 1px #ccc'')
   \<and> truthy (getp suppressedPaddedRequest ''border'')
   \<and> borderPropName (getp suppressedPaddedRequest ''border'') = Inr ''border''
   \<and> truthy (borderWidthOf exampleTheme suppressedPaddedRequest)
   \<and> ''Bottom'' \<in> set edgeNames
   \<and> adjusts (getp suppressedPaddedRequest ''border'') ''Bottom''
   \<and> propsToStyle exampleEngine exampleTheme suppressedPaddedRequest ''paddingBottom''
       = Some (JNum (Num 20))
   \<and> truthy (getp suppressedPaddedRequest ''suppressRhythmWarning'')
   \<and> styleAt (borderWithRhythm exampleEngine exampleTheme suppressedPaddedRequest
                 (propsToStyle exampleEngine exampleTheme suppressedPaddedRequest))
         ''paddingBottom'' = Some (JNum (Num 19))
   \<and> styleAt (borderWithRhythm exampleEngine exampleTheme suppressedPaddedRequest
                 (propsToStyle exampleEngine exampleTheme suppressedPaddedRequest))
         ''border'' = Some (JStr ''solid 1px #ccc'')"
proof -
  let ?P = suppressedPaddedRequest
  let ?st = "propsToStyle exampleEngine exampleTheme suppressedPaddedRequest"
  have h1: "lineHeight exampleTheme = Num 20" and h2: "border_width exampleTheme = Num 1"
    by (simp_all add: exampleTheme_def)
  have h3: "truthy (getp ?P ''border'')" by code_simp
  have h4: "borderPropName (getp ?P ''border'') = Inr ''border''" by code_simp
  have h5: "truthy (borderWidthOf exampleTheme ?P)" by code_simp
  have h6: "''Bottom'' \<in> set edgeNames" by code_simp
  have h7: "adjusts (getp ?P ''border'') ''Bottom''" by code_simp
  have h8: "?st (''padding'' @ ''Bottom'') = Some (JNum (Num 20))" by code_simp
  have h9: "jge0 (jsub (Num 20) (toNumber exampleEngine (borderWidthOf exampleTheme ?P)))"
    by code_simp
  have h10: "\<forall>p \<in> set (edgesFrom ''Bottom'').
     \<not> failsEdge exampleEngine (getp ?P ''border'') (borderWidthOf exampleTheme ?P) ?st p"
    by code_simp
  have h11: "truthy (getp ?P ''suppressRhythmWarning'')" by code_simp
  have c: "toStringJS exampleEngine (getm (colors exampleTheme) ''gray'') = ''#ccc''"
    by code_simp
  have w: "toStringJS exampleEngine (borderWidthOf exampleTheme ?P) = ''1''" by code_simp
  have c2: "toStringJS exampleEngine (borderColorOf exampleEngine exampleTheme ?P) = ''#ccc''"
    by code_simp
  have d: "jsub (Num 20) (toNumber exampleEngine (borderWidthOf exampleTheme ?P)) = Num 19"
    by code_simp
  note t = border_compensation[of exampleTheme exampleEngine ?P "''border''" ?st "''Bottom''"
      "Num 20"]
  from t h1 h2 have a:
    "styleAt (Box exampleEngine exampleTheme compensationRequest) ''paddingTop''
       = Some (JNum (Num 19))"
    "styleAt (Box exampleEngine exampleTheme compensationRequest) ''border''
       = Some (JStr ''solid 1px #ccc'')"
    by (simp_all add: c)
  from t h3 h4 have b: "styleAt (borderWithRhythm exampleEngine exampleTheme ?P ?st) ''border''
       = Some (JStr ''solid 1px #ccc'')"
    by (simp add: w c2)
  from t h3 h4 h5 h6 h7 h8 h9 h10
  have "styleAt (borderWithRhythm exampleEngine exampleTheme ?P ?st) (''padding'' @ ''Bottom'')
       = Some (JNum (jsub (Num 20) (toNumber exampleEngine (borderWidthOf exampleTheme ?P))))"
    by blast
  then have e: "styleAt (borderWithRhythm exampleEngine exampleTheme ?P ?st) ''paddingBottom''
       = Some (JNum (Num 19))"
    by (simp add: d)
  from h8 have h8': "?st ''paddingBottom'' = Some (JNum (Num 20))" by simp
  show ?thesis using h1 h2 a h3 h4 h5 h6 h7 h8' h11 e b by blast
qed

text \<open>
  C4 as stated fails: with warnings suppressed, the uncompensable edges visited after the
  bottom edge empty the overlay, and \<open>paddingBottom\<close> stays 20 although \<open>20 - 1 >= 0\<close>.
\<close>

theorem border_compensation_counterexample:
  "adjusts (getp suppressedLossRequest ''border'') ''Bottom''
   \<and> propsToStyle exampleEngine exampleTheme suppressedLossRequest ''paddingBottom''
       = Some (JNum (Num 20))
   \<and> jge0 (jsub (Num 20) (toNumber exampleEngine (borderWidthOf exampleTheme suppressedLossRequest)))
   \<and> styleAt (borderWithRhythm exampleEngine exampleTheme suppressedLossRequest
                 (propsToStyle exampleEngine exampleTheme suppressedLossRequest))
         ''paddingBottom'' = None
   \<and> styleAt (Box exampleEngine exampleTheme suppressedLossRequest) ''paddingBottom''
       = Some (JNum (Num 20))"
  by code_simp

section \<open>Missing colours\<close>












section \<open>Vertical rhythm\<close>





















end
